theory Spec2Isabelle
  imports Complex_Main "HOL-Library.AList"
begin

section \<open>EV range calculator: energy model, range estimator, isodistance reconciler\<close>

text \<open>
  A shallow embedding of \<^verbatim>\<open>scripts/ev_range_calculator.py\<close>.

  Numbers. The script computes with Python floats. Here every float is a \<^typ>\<open>real\<close>:
  the development verifies the arithmetic the script writes down, not the rounding,
  overflow, infinities or NaN of IEEE doubles.

  Exceptions. A Python exception is a value of \<open>exn\<close>; a function that can raise returns
  \<open>exn + 'a\<close>, with \<open>Inl\<close> for the exception.
\<close>

datatype exn = ZeroDivisionError | IndexError | ConnectionError | HTTPError | OtherException

subsection \<open>Module constants\<close>

definition BATTERY_CAPACITY_KWH :: real where "BATTERY_CAPACITY_KWH = 100"
definition VEHICLE_MASS_KG :: real where "VEHICLE_MASS_KG = 2435"
definition DRAG_COEFFICIENT :: real where "DRAG_COEFFICIENT = 0.28"
definition FRONTAL_AREA_M2 :: real where "FRONTAL_AREA_M2 = 2.62"
definition ROLLING_RESISTANCE :: real where "ROLLING_RESISTANCE = 0.009"
definition AIR_DENSITY_KG_M3 :: real where "AIR_DENSITY_KG_M3 = 1.225"
definition DRIVETRAIN_EFFICIENCY :: real where "DRIVETRAIN_EFFICIENCY = 0.90"
definition REGEN_EFFICIENCY :: real where "REGEN_EFFICIENCY = 0.65"
definition AUX_POWER_KW :: real where "AUX_POWER_KW = 0.4"
definition RESERVE_SOC_PCT :: real where "RESERVE_SOC_PCT = 5"

text \<open>
  \<^verbatim>\<open>HVAC_POWER_MAP\<close> is a dict from \<open>(lo, hi)\<close> to a power; the script only iterates
  over its items, in insertion order, so it is the list of its items.
\<close>

definition HVAC_POWER_MAP :: "((real \<times> real) \<times> real) list" where
  "HVAC_POWER_MAP =
     [((-30, -10), 5.0), ((-10, 0), 4.0), ((0, 5), 3.0), ((5, 12), 1.5),
      ((12, 22), 0.3), ((22, 28), 1.5), ((28, 35), 3.0), ((35, 50), 4.5)]"

subsection \<open>\<^verbatim>\<open>estimate_hvac_power\<close>\<close>

text \<open>
  The \<^verbatim>\<open>for (lo, hi), power in ...items()\<close> loop with its early return; the
  \<^verbatim>\<open>return 2.0\<close> after the loop is the empty-list case.
\<close>

fun hvac_scan :: "((real \<times> real) \<times> real) list \<Rightarrow> real \<Rightarrow> real" where
  "hvac_scan [] temp_c = 2.0"
| "hvac_scan (((lo, hi), pwr) # items) temp_c =
     (if lo \<le> temp_c \<and> temp_c < hi then pwr else hvac_scan items temp_c)"

definition estimate_hvac_power :: "real \<Rightarrow> real" where
  "estimate_hvac_power temp_c = hvac_scan HVAC_POWER_MAP temp_c"

subsection \<open>\<^verbatim>\<open>compute_energy_consumption_kwh_per_km\<close>\<close>

text \<open>
  The only operation of the body that can raise on numbers is the final division:
  Python raises \<^verbatim>\<open>ZeroDivisionError\<close> for \<^verbatim>\<open>p_total / 0\<close>.
\<close>

definition compute_energy_consumption_kwh_per_km ::
    "real \<Rightarrow> real \<Rightarrow> real \<Rightarrow> real \<Rightarrow> exn + real" where
  "compute_energy_consumption_kwh_per_km speed_kmh temp_c wind_ms elev =
     (let v_ms = speed_kmh / 3.6;
          effective_v = v_ms + (wind_ms * 0.5);
          f_aero = 0.5 * AIR_DENSITY_KG_M3 * DRAG_COEFFICIENT * FRONTAL_AREA_M2 * effective_v ^ 2;
          f_roll = ROLLING_RESISTANCE * VEHICLE_MASS_KG * 9.81;
          f_grade = VEHICLE_MASS_KG * 9.81 * (elev / 1000.0);
          f_total = f_aero + f_roll + max f_grade 0;
          regen_recovery =
            (if f_grade < 0 then \<bar>f_grade\<bar> * v_ms * REGEN_EFFICIENCY / 1000.0 else 0.0);
          p_mech = f_total * v_ms / 1000.0;
          p_elec = p_mech / DRIVETRAIN_EFFICIENCY;
          p_hvac = estimate_hvac_power temp_c;
          p_total = max (p_elec + p_hvac + AUX_POWER_KW - regen_recovery) 0.5
      in if speed_kmh = 0 then Inl ZeroDivisionError else Inr (p_total / speed_kmh))"

subsection \<open>\<^verbatim>\<open>calculate_range_km\<close>\<close>

text \<open>
  An exception of one of the three consumption calls leaves the function at that call.
  The final conditional expression divides only when \<open>avg > 0\<close>.
\<close>

definition calculate_range_km :: "real \<Rightarrow> real \<Rightarrow> real \<Rightarrow> real \<Rightarrow> real \<Rightarrow> exn + real" where
  "calculate_range_km soc soh temp_c wind_ms energy_fraction =
     (let usable_soc = max (soc - RESERVE_SOC_PCT) 0;
          usable_kwh = BATTERY_CAPACITY_KWH * (soh / 100.0) * (usable_soc / 100.0) * energy_fraction
      in case compute_energy_consumption_kwh_per_km 35 temp_c wind_ms 2.0 of
           Inl e \<Rightarrow> Inl e
         | Inr c1 \<Rightarrow>
        (case compute_energy_consumption_kwh_per_km 60 temp_c wind_ms 5.0 of
           Inl e \<Rightarrow> Inl e
         | Inr c2 \<Rightarrow>
        (case compute_energy_consumption_kwh_per_km 100 temp_c wind_ms 3.0 of
           Inl e \<Rightarrow> Inl e
         | Inr c3 \<Rightarrow>
        (let avg = 0.40 * c1 + 0.40 * c2 + 0.20 * c3
         in Inr (if avg > 0 then max (usable_kwh / avg) 0 else 0)))))"

subsection \<open>The routing engine and its response\<close>

text \<open>
  The request body that \<^verbatim>\<open>fetch_valhalla_isodistance\<close> posts: one origin and one contour
  per requested distance.
\<close>

record request =
  locations :: "(real \<times> real) list"
  costing :: string
  contours :: "real list"
  polygons :: bool

text \<open>
  What the script can observe of one element of the response's \<^verbatim>\<open>features\<close>. The geometry
  itself is opaque (type \<open>'g\<close>).
  \<^item> \<open>Unreadable\<close>: an element on which \<^verbatim>\<open>feat.get\<close> or \<^verbatim>\<open>props.get\<close> raises
    (it, or its \<^verbatim>\<open>properties\<close>, is not a dict).
  \<^item> The \<^verbatim>\<open>contour\<close> property is \<open>None\<close> when missing or null, \<open>Some (Number x)\<close>
    when \<^verbatim>\<open>float(contour_val)\<close> gives \<open>x\<close>, and \<open>Some NotNumber\<close> when \<^verbatim>\<open>float\<close> raises.
  \<^item> The \<^verbatim>\<open>geometry\<close> is \<open>None\<close> when missing or falsy, \<open>Some (Typed g)\<close> for a truthy
    value with a \<^verbatim>\<open>type\<close> entry, and \<open>Some (Untyped g)\<close> for a truthy value on which
    \<^verbatim>\<open>geom['type']\<close> (evaluated for the log line) raises.
\<close>

datatype cval = Number real | NotNumber

datatype 'g geom_val = Typed 'g | Untyped 'g

datatype 'g feat = Feat "cval option" "'g geom_val option" | Unreadable

text \<open>
  The engine is the outside world: \<open>respond\<close> gives, for a posted request, either the
  exception raised before the loop over the features starts (by \<^verbatim>\<open>requests.post\<close>,
  \<^verbatim>\<open>raise_for_status\<close>, \<^verbatim>\<open>r.json()\<close>, \<^verbatim>\<open>geojson.get\<close>, \<^verbatim>\<open>len(features)\<close> or the
  iteration), or the features iterated; \<open>sent\<close> records the requests posted so far.
\<close>

record 'g valhalla =
  respond :: "request \<Rightarrow> exn + 'g feat list"
  sent :: "request list"

definition post :: "'g valhalla \<Rightarrow> request \<Rightarrow> (exn + 'g feat list) \<times> 'g valhalla" where
  "post vh data = (respond vh data, vh\<lparr>sent := sent vh @ [data]\<rparr>)"

text \<open>An engine that answers every request with the same response and has sent nothing yet.\<close>

definition mock_valhalla :: "exn + 'g feat list \<Rightarrow> 'g valhalla" where
  "mock_valhalla response = \<lparr>respond = (\<lambda>_. response), sent = []\<rparr>"

subsection \<open>\<^verbatim>\<open>fetch_valhalla_isodistance\<close>\<close>

text \<open>
  \<^verbatim>\<open>geom_by_distance\<close> is a dict keyed by float; the matching loop iterates over its items.
  A Python dict keeps its keys in the order of first insertion, and assigning to a key that
  is present replaces the value in place: this is \<^const>\<open>AList.update\<close> on the list of items.

  One iteration of the loop over the features:
\<close>

fun store_feature :: "(real \<times> 'g) list \<Rightarrow> 'g feat \<Rightarrow> exn + (real \<times> 'g) list" where
  "store_feature geom_by_distance Unreadable = Inl OtherException"
| "store_feature geom_by_distance (Feat None geom) = Inr geom_by_distance"
| "store_feature geom_by_distance (Feat (Some contour_val) None) = Inr geom_by_distance"
| "store_feature geom_by_distance (Feat (Some NotNumber) (Some geom)) = Inl OtherException"
| "store_feature geom_by_distance (Feat (Some (Number vd)) (Some (Untyped g))) = Inl OtherException"
| "store_feature geom_by_distance (Feat (Some (Number vd)) (Some (Typed g))) =
     Inr (AList.update vd g geom_by_distance)"

fun build_geom_by_distance :: "(real \<times> 'g) list \<Rightarrow> 'g feat list \<Rightarrow> exn + (real \<times> 'g) list" where
  "build_geom_by_distance geom_by_distance [] = Inr geom_by_distance"
| "build_geom_by_distance geom_by_distance (feat # features) =
     (case store_feature geom_by_distance feat of
        Inl e \<Rightarrow> Inl e
      | Inr geom_by_distance' \<Rightarrow> build_geom_by_distance geom_by_distance' features)"

text \<open>The inner loop: the first item within the tolerance, \<^verbatim>\<open>match = None\<close> otherwise.\<close>

fun find_match :: "(real \<times> 'g) list \<Rightarrow> real \<Rightarrow> 'g option" where
  "find_match [] d = None"
| "find_match ((vd, geom) # items) d =
     (if \<bar>vd - d\<bar> < 1.0 then Some geom else find_match items d)"

definition isodistance_request :: "real \<Rightarrow> real \<Rightarrow> real list \<Rightarrow> request" where
  "isodistance_request lat lon distances_km =
     \<lparr>locations = [(lat, lon)], costing = ''auto'', contours = distances_km, polygons = True\<rparr>"

text \<open>The body of the \<^verbatim>\<open>try\<close> block.\<close>

definition fetch_try ::
    "'g valhalla \<Rightarrow> real \<Rightarrow> real \<Rightarrow> real list \<Rightarrow> (exn + 'g option list) \<times> 'g valhalla" where
  "fetch_try vh lat lon distances_km =
     (case post vh (isodistance_request lat lon distances_km) of
        (Inl e, vh') \<Rightarrow> (Inl e, vh')
      | (Inr features, vh') \<Rightarrow>
          (case build_geom_by_distance [] features of
             Inl e \<Rightarrow> (Inl e, vh')
           | Inr geom_by_distance \<Rightarrow> (Inr (map (find_match geom_by_distance) distances_km), vh')))"

text \<open>
  The three handlers, in the order of the source; \<^verbatim>\<open>except Exception\<close> takes every
  exception the first two leave.
\<close>

definition fetch_valhalla_isodistance ::
    "'g valhalla \<Rightarrow> real \<Rightarrow> real \<Rightarrow> real list \<Rightarrow> (exn + 'g option list) \<times> 'g valhalla" where
  "fetch_valhalla_isodistance vh lat lon distances_km =
     (case fetch_try vh lat lon distances_km of
        (Inr results, vh') \<Rightarrow> (Inr results, vh')
      | (Inl ConnectionError, vh') \<Rightarrow> (Inr (replicate (length distances_km) None), vh')
      | (Inl HTTPError, vh') \<Rightarrow> (Inr (replicate (length distances_km) None), vh')
      | (Inl e, vh') \<Rightarrow> (Inr (replicate (length distances_km) None), vh'))"

subsection \<open>The band pipeline of \<^verbatim>\<open>main\<close>\<close>

record band =
  label :: string
  fraction :: real
  color :: string

definition ENERGY_BANDS :: "band list" where
  "ENERGY_BANDS =
     [\<lparr>label = ''100%'', fraction = 1.00, color = ''#00e5ff''\<rparr>,
      \<lparr>label = ''75%'', fraction = 0.75, color = ''#00b0ff''\<rparr>,
      \<lparr>label = ''50%'', fraction = 0.50, color = ''#2979ff''\<rparr>,
      \<lparr>label = ''25%'', fraction = 0.25, color = ''#7c4dff''\<rparr>]"

text \<open>
  A band dict of \<^verbatim>\<open>band_results\<close>. Its \<^verbatim>\<open>geometry\<close> key is missing at first (\<open>None\<close>),
  then holds either \<^verbatim>\<open>None\<close> (\<open>Some None\<close>) or a geometry (\<open>Some (Some g)\<close>).
\<close>

record 'g band_result = band +
  range_km :: real
  geometry :: "'g option option"

text \<open>
  Python's \<^verbatim>\<open>round(x, 1)\<close> on the real number: the nearest multiple of one tenth, a tie
  going to the even one.
\<close>

definition round1 :: "real \<Rightarrow> real" where
  "round1 x =
     (let y = x * 10; n = \<lfloor>y\<rfloor>; r = y - of_int n
      in (if r < 1 / 2 then of_int n
          else if 1 / 2 < r then of_int (n + 1)
          else if even n then of_int n else of_int (n + 1)) / 10)"

text \<open>The first loop of \<^verbatim>\<open>main\<close>: one range per band, in order.\<close>

fun plan_bands :: "real \<Rightarrow> real \<Rightarrow> real \<Rightarrow> real \<Rightarrow> band list \<Rightarrow> exn + 'g band_result list" where
  "plan_bands soc soh temp_c wind_ms [] = Inr []"
| "plan_bands soc soh temp_c wind_ms (b # bs) =
     (case calculate_range_km soc soh temp_c wind_ms (fraction b) of
        Inl e \<Rightarrow> Inl e
      | Inr r \<Rightarrow>
          (case plan_bands soc soh temp_c wind_ms bs of
             Inl e \<Rightarrow> Inl e
           | Inr band_results \<Rightarrow>
               Inr (\<lparr>label = label b, fraction = fraction b, color = color b,
                     range_km = r, geometry = None\<rparr> # band_results)))"

text \<open>
  The second loop, over \<^verbatim>\<open>enumerate(band_results)\<close> from index \<open>i\<close>: the distances to request,
  the indices of their bands, and the bands, those below 1.0 km now with
  \<^verbatim>\<open>band["geometry"] = None\<close>.
\<close>

fun select_bands ::
    "nat \<Rightarrow> 'g band_result list \<Rightarrow> real list \<times> nat list \<times> 'g band_result list" where
  "select_bands i [] = ([], [], [])"
| "select_bands i (b # bs) =
     (case select_bands (Suc i) bs of
        (distances_km, valid_indices, band_results) \<Rightarrow>
          if range_km b \<ge> 1.0
          then (round1 (range_km b) # distances_km, i # valid_indices, b # band_results)
          else (distances_km, valid_indices, b\<lparr>geometry := Some None\<rparr> # band_results))"

text \<open>
  The third loop, over \<^verbatim>\<open>zip(valid_indices, geometries)\<close>; an index out of range would
  raise \<^verbatim>\<open>IndexError\<close>.
\<close>

fun attach_geometries ::
    "(nat \<times> 'g option) list \<Rightarrow> 'g band_result list \<Rightarrow> exn + 'g band_result list" where
  "attach_geometries [] band_results = Inr band_results"
| "attach_geometries ((idx, geom) # rest) band_results =
     (if idx < length band_results
      then attach_geometries rest
             (band_results[idx := (band_results ! idx)\<lparr>geometry := Some geom\<rparr>])
      else Inl IndexError)"

text \<open>What \<^verbatim>\<open>main\<close> hands to the serialisation: the bands and \<^verbatim>\<open>max_range\<close>.\<close>

record 'g band_output =
  bands :: "'g band_result list"
  max_range :: real

definition assemble :: "'g band_result list \<Rightarrow> 'g band_output" where
  "assemble band_results =
     \<lparr>bands = band_results,
      max_range = (if band_results \<noteq> [] then range_km (band_results ! 0) else 0)\<rparr>"

text \<open>
  \<^verbatim>\<open>main\<close>, from the vehicle state, the position and the weather on: the reads from the
  state store and the weather service are its arguments, the files it writes are its result.
\<close>

definition main ::
    "'g valhalla \<Rightarrow> real \<Rightarrow> real \<Rightarrow> real \<Rightarrow> real \<Rightarrow> real \<Rightarrow> real \<Rightarrow> (exn + 'g band_output) \<times> 'g valhalla" where
  "main vh soc soh lat lon temp_c wind_ms =
     (case plan_bands soc soh temp_c wind_ms ENERGY_BANDS of
        Inl e \<Rightarrow> (Inl e, vh)
      | Inr band_results0 \<Rightarrow>
          (case select_bands 0 band_results0 of
             (distances_km, valid_indices, band_results) \<Rightarrow>
               if distances_km \<noteq> [] then
                 (case fetch_valhalla_isodistance vh lat lon distances_km of
                    (Inl e, vh') \<Rightarrow> (Inl e, vh')
                  | (Inr geometries, vh') \<Rightarrow>
                      (case attach_geometries (zip valid_indices geometries) band_results of
                         Inl e \<Rightarrow> (Inl e, vh')
                       | Inr band_results' \<Rightarrow> (Inr (assemble band_results'), vh')))
               else (Inr (assemble band_results), vh)))"

subsection \<open>Quantities named for the proofs\<close>

text \<open>The value of the local \<^verbatim>\<open>p_total\<close> of \<^verbatim>\<open>compute_energy_consumption_kwh_per_km\<close>.\<close>

definition p_total_kw :: "real \<Rightarrow> real \<Rightarrow> real \<Rightarrow> real \<Rightarrow> real" where
  "p_total_kw speed_kmh temp_c wind_ms elev =
     max ((0.5 * AIR_DENSITY_KG_M3 * DRAG_COEFFICIENT * FRONTAL_AREA_M2
              * (speed_kmh / 3.6 + wind_ms * 0.5) ^ 2
            + ROLLING_RESISTANCE * VEHICLE_MASS_KG * 9.81
            + max (VEHICLE_MASS_KG * 9.81 * (elev / 1000.0)) 0) * (speed_kmh / 3.6) / 1000.0
            / DRIVETRAIN_EFFICIENCY
          + estimate_hvac_power temp_c + AUX_POWER_KW
          - (if VEHICLE_MASS_KG * 9.81 * (elev / 1000.0) < 0
             then \<bar>VEHICLE_MASS_KG * 9.81 * (elev / 1000.0)\<bar> * (speed_kmh / 3.6) * REGEN_EFFICIENCY / 1000.0
             else 0.0))
         0.5"

text \<open>The value of the local \<^verbatim>\<open>avg\<close> of \<^verbatim>\<open>calculate_range_km\<close>.\<close>

definition avg_consumption :: "real \<Rightarrow> real \<Rightarrow> real" where
  "avg_consumption temp_c wind_ms =
     0.40 * (p_total_kw 35 temp_c wind_ms 2.0 / 35) + 0.40 * (p_total_kw 60 temp_c wind_ms 5.0 / 60)
       + 0.20 * (p_total_kw 100 temp_c wind_ms 3.0 / 100)"

text \<open>
  The usable energy as the specification words it: capacity times state of health over 100
  times the usable state of charge over 100 times the usable-energy fraction.
\<close>

definition spec_usable_energy_kwh :: "real \<Rightarrow> real \<Rightarrow> real \<Rightarrow> real \<Rightarrow> real \<Rightarrow> real" where
  "spec_usable_energy_kwh capacity soh soc reserve energy_fraction =
     capacity * (soh / 100) * (max (soc - reserve) 0 / 100) * energy_fraction"

text \<open>
  The (distance, geometry) pairs of a response, in the order returned: the features that
  carry both a contour distance and a geometry.
\<close>

fun returned_pairs :: "'g feat list \<Rightarrow> (real \<times> 'g) list" where
  "returned_pairs [] = []"
| "returned_pairs (Feat (Some (Number vd)) (Some (Typed g)) # features) =
     (vd, g) # returned_pairs features"
| "returned_pairs (feat # features) = returned_pairs features"

text \<open>
  What one call of \<^verbatim>\<open>fetch_valhalla_isodistance\<close> returns for one requested distance, given
  the request posted: nothing after any exception, the match in \<^verbatim>\<open>geom_by_distance\<close> otherwise.
\<close>

definition engine_match :: "'g valhalla \<Rightarrow> request \<Rightarrow> real \<Rightarrow> 'g option" where
  "engine_match vh data d =
     (case respond vh data of
        Inl e \<Rightarrow> None
      | Inr features \<Rightarrow>
          (case build_geom_by_distance [] features of
             Inl e \<Rightarrow> None
           | Inr geom_by_distance \<Rightarrow> find_match geom_by_distance d))"

text \<open>The value \<^verbatim>\<open>calculate_range_km\<close> returns, \<^verbatim>\<open>avg\<close> being positive.\<close>

definition range_value :: "real \<Rightarrow> real \<Rightarrow> real \<Rightarrow> real \<Rightarrow> real \<Rightarrow> real" where
  "range_value soc soh temp_c wind_ms energy_fraction =
     max (BATTERY_CAPACITY_KWH * (soh / 100.0) * (max (soc - RESERVE_SOC_PCT) 0 / 100.0)
            * energy_fraction / avg_consumption temp_c wind_ms) 0"

text \<open>The band dict the first loop of \<^verbatim>\<open>main\<close> appends for a band.\<close>

definition planned_band :: "real \<Rightarrow> real \<Rightarrow> real \<Rightarrow> real \<Rightarrow> band \<Rightarrow> 'g band_result" where
  "planned_band soc soh temp_c wind_ms b =
     \<lparr>label = label b, fraction = fraction b, color = color b,
      range_km = range_value soc soh temp_c wind_ms (fraction b), geometry = None\<rparr>"

section \<open>Properties of the HVAC power estimator\<close>

lemma hvac_scan_in_band:
  "((lo, hi), p) \<in> set items \<Longrightarrow> lo \<le> t \<Longrightarrow> t < hi \<Longrightarrow>
   \<forall>b \<in> set items. \<forall>b' \<in> set items.
      fst (fst b) \<le> t \<and> t < snd (fst b) \<and> fst (fst b') \<le> t \<and> t < snd (fst b') \<longrightarrow> b = b' \<Longrightarrow>
   hvac_scan items t = p"
proof (induction items t rule: hvac_scan.induct)
  case (1 temp_c)
  then show ?case by simp
next
  case (2 lo' hi' pwr items temp_c)
  show ?case
  proof (cases "lo' \<le> temp_c \<and> temp_c < hi'")
    case True
    with "2.prems" have "((lo', hi'), pwr) = ((lo, hi), p)"
      by (metis fst_conv list.set_intros(1) snd_conv)
    with True show ?thesis by simp
  next
    case False
    with "2.prems" have "((lo, hi), p) \<in> set items" by auto
    with False "2.IH" "2.prems" show ?thesis by auto
  qed
qed

lemma hvac_scan_outside:
  "\<forall>b \<in> set items. \<not> (fst (fst b) \<le> t \<and> t < snd (fst b)) \<Longrightarrow> hvac_scan items t = 2"
  by (induction items t rule: hvac_scan.induct) auto

lemma hvac_bands_disjoint:
  "b \<in> set HVAC_POWER_MAP \<Longrightarrow> b' \<in> set HVAC_POWER_MAP \<Longrightarrow>
   fst (fst b) \<le> t \<Longrightarrow> t < snd (fst b) \<Longrightarrow> fst (fst b') \<le> t \<Longrightarrow> t < snd (fst b') \<Longrightarrow> b = b'"
  unfolding HVAC_POWER_MAP_def by auto

lemma hvac_power_bounds: "0.3 \<le> estimate_hvac_power t \<and> estimate_hvac_power t \<le> 5"
  unfolding estimate_hvac_power_def HVAC_POWER_MAP_def by simp

text \<open>
  Claim C8. For every real temperature the HVAC power estimator returns a power (the model
  has no failing branch, as the source has none on a number): the power of the band
  \<open>[lo, hi)\<close> that contains the temperature, such a band being unique, and the fallback
  2.0 kW when no band contains it.
\<close>

theorem hvac_power_total_coverage:
  "(\<forall>lo hi p. ((lo, hi), p) \<in> set HVAC_POWER_MAP \<and> lo \<le> t \<and> t < hi
        \<longrightarrow> estimate_hvac_power t = p)
   \<and> ((\<forall>b \<in> set HVAC_POWER_MAP. \<not> (fst (fst b) \<le> t \<and> t < snd (fst b)))
        \<longrightarrow> estimate_hvac_power t = 2)
   \<and> (\<forall>b \<in> set HVAC_POWER_MAP. \<forall>b' \<in> set HVAC_POWER_MAP.
        fst (fst b) \<le> t \<and> t < snd (fst b) \<and> fst (fst b') \<le> t \<and> t < snd (fst b')
        \<longrightarrow> b = b')"
proof (intro conjI allI impI ballI)
  fix lo hi p
  assume "((lo, hi), p) \<in> set HVAC_POWER_MAP \<and> lo \<le> t \<and> t < hi"
  then show "estimate_hvac_power t = p"
    unfolding estimate_hvac_power_def
    using hvac_bands_disjoint [of _ _ t] by (intro hvac_scan_in_band) blast+
next
  assume "\<forall>b \<in> set HVAC_POWER_MAP. \<not> (fst (fst b) \<le> t \<and> t < snd (fst b))"
  then show "estimate_hvac_power t = 2"
    unfolding estimate_hvac_power_def by (rule hvac_scan_outside)
next
  fix b b'
  assume "b \<in> set HVAC_POWER_MAP" "b' \<in> set HVAC_POWER_MAP"
    "fst (fst b) \<le> t \<and> t < snd (fst b) \<and> fst (fst b') \<le> t \<and> t < snd (fst b')"
  then show "b = b'" using hvac_bands_disjoint by blast
qed

theorem hvac_power_total_coverage_witness:
  "((12, 22), 0.3) \<in> set HVAC_POWER_MAP \<and> (12::real) \<le> 15 \<and> (15::real) < 22
   \<and> estimate_hvac_power 15 = 0.3
   \<and> estimate_hvac_power 100 = 2 \<and> estimate_hvac_power (- 100) = 2"
proof -
  have m: "((12, 22), 0.3) \<in> set HVAC_POWER_MAP" unfolding HVAC_POWER_MAP_def by simp
  have a: "estimate_hvac_power 15 = 0.3"
    using hvac_power_total_coverage [of 15] m by fastforce
  have o: "\<forall>b \<in> set HVAC_POWER_MAP. \<not> (fst (fst b) \<le> 100 \<and> 100 < snd (fst b))"
    unfolding HVAC_POWER_MAP_def by simp
  have o': "\<forall>b \<in> set HVAC_POWER_MAP. \<not> (fst (fst b) \<le> - 100 \<and> - 100 < snd (fst b))"
    unfolding HVAC_POWER_MAP_def by simp
  have b: "estimate_hvac_power 100 = 2" using hvac_power_total_coverage [of 100] o by blast
  have c: "estimate_hvac_power (- 100) = 2"
    using hvac_power_total_coverage [of "- 100"] o' by blast
  show ?thesis using m a b c by simp
qed

section \<open>Properties of the energy consumption model\<close>

lemmas vehicle_constants =
  BATTERY_CAPACITY_KWH_def VEHICLE_MASS_KG_def DRAG_COEFFICIENT_def FRONTAL_AREA_M2_def
  ROLLING_RESISTANCE_def AIR_DENSITY_KG_M3_def DRIVETRAIN_EFFICIENCY_def REGEN_EFFICIENCY_def
  AUX_POWER_KW_def RESERVE_SOC_PCT_def

lemma compute_p_total:
  "compute_energy_consumption_kwh_per_km s t w g =
     (if s = 0 then Inl ZeroDivisionError else Inr (p_total_kw s t w g / s))"
  unfolding compute_energy_consumption_kwh_per_km_def p_total_kw_def Let_def by simp

lemma p_total_floor: "0.5 \<le> p_total_kw s t w g"
  unfolding p_total_kw_def by simp

lemma p_total_uphill:
  assumes "0 < s" "0 \<le> g"
  shows "0.7 \<le> p_total_kw s t w g"
proof -
  define F where "F = 0.5 * AIR_DENSITY_KG_M3 * DRAG_COEFFICIENT * FRONTAL_AREA_M2
              * (s / 3.6 + w * 0.5) ^ 2
            + ROLLING_RESISTANCE * VEHICLE_MASS_KG * 9.81
            + max (VEHICLE_MASS_KG * 9.81 * (g / 1000.0)) 0"
  have h: "0.3 \<le> estimate_hvac_power t" using hvac_power_bounds by blast
  have "0 \<le> 0.5 * AIR_DENSITY_KG_M3 * DRAG_COEFFICIENT * FRONTAL_AREA_M2 * (s / 3.6 + w * 0.5) ^ 2"
    unfolding vehicle_constants by (intro mult_nonneg_nonneg zero_le_power2) simp_all
  moreover have "0 \<le> ROLLING_RESISTANCE * VEHICLE_MASS_KG * 9.81"
    unfolding vehicle_constants by simp
  moreover have "0 \<le> max (VEHICLE_MASS_KG * 9.81 * (g / 1000.0)) 0" by simp
  ultimately have F: "0 \<le> F" unfolding F_def by linarith
  have "0 \<le> F * (s / 3.6)" using F assms by (intro mult_nonneg_nonneg) simp_all
  then have P: "0 \<le> F * (s / 3.6) / 1000.0 / DRIVETRAIN_EFFICIENCY"
    unfolding DRIVETRAIN_EFFICIENCY_def by (intro divide_nonneg_nonneg) simp_all
  have "0 \<le> VEHICLE_MASS_KG * 9.81 * (g / 1000.0)"
    using assms unfolding vehicle_constants by simp
  then have G: "\<not> VEHICLE_MASS_KG * 9.81 * (g / 1000.0) < 0" by simp
  have "p_total_kw s t w g
      = max (F * (s / 3.6) / 1000.0 / DRIVETRAIN_EFFICIENCY + estimate_hvac_power t + AUX_POWER_KW - 0.0) 0.5"
    unfolding p_total_kw_def F_def using G by (simp only: if_False)
  moreover have "0.7 \<le> F * (s / 3.6) / 1000.0 / DRIVETRAIN_EFFICIENCY + estimate_hvac_power t + AUX_POWER_KW - 0.0"
    using P h unfolding AUX_POWER_KW_def by linarith
  ultimately show ?thesis by (simp only: le_max_iff_disj) simp
qed

text \<open>
  Claim C1, as the code has it. For every speed above 0, any temperature, wind and grade,
  the consumption model returns a value that is strictly positive and at least the power
  floor of 0.5 kW divided by the speed; it is strictly above that bound when the grade is
  not negative. (On a steep descent the regenerative term takes the power down to the
  floor, and the value returned is the bound itself.)
\<close>

theorem consumption_positive_at_least_floor:
  "0 < s \<Longrightarrow>
   \<exists>c. compute_energy_consumption_kwh_per_km s t w g = Inr c \<and> 0 < c \<and> 0.5 / s \<le> c
       \<and> (0 \<le> g \<longrightarrow> 0.5 / s < c)"
proof -
  assume s: "0 < s"
  have f: "0.5 \<le> p_total_kw s t w g" by (rule p_total_floor)
  have 1: "0 < p_total_kw s t w g / s" using f s by simp
  have 2: "0.5 / s \<le> p_total_kw s t w g / s" using f s by (intro divide_right_mono) simp_all
  have 3: "0 \<le> g \<longrightarrow> 0.5 / s < p_total_kw s t w g / s"
  proof
    assume "0 \<le> g"
    then have "0.7 \<le> p_total_kw s t w g" using s p_total_uphill by blast
    then have "0.5 < p_total_kw s t w g" by simp
    then show "0.5 / s < p_total_kw s t w g / s"
      using s by (intro divide_strict_right_mono) simp_all
  qed
  show ?thesis using s 1 2 3 by (simp only: compute_p_total) auto
qed

theorem consumption_positive_at_least_floor_witness:
  "(0::real) < 60
   \<and> (\<exists>c. compute_energy_consumption_kwh_per_km 60 15 0 0 = Inr c \<and> 0 < c \<and> 0.5 / 60 \<le> c
         \<and> ((0::real) \<le> 0 \<longrightarrow> 0.5 / 60 < c))"
  using consumption_positive_at_least_floor [of 60 15 0 0] by simp

text \<open>
  Claim C1 as stated fails: at 60 km/h, 15 degrees, no wind and a grade of -30 (a descent
  of 3 percent) the value returned is 0.5 / 60 = 1/120, which is neither above the floor
  0.5 nor above the floor divided by the speed.
\<close>

theorem consumption_at_floor_counterexample:
  "compute_energy_consumption_kwh_per_km 60 15 0 (- 30) = Inr (1 / 120)
   \<and> \<not> ((0.5::real) / 60 < 1 / 120) \<and> \<not> ((0.5::real) < 1 / 120)"
  unfolding compute_energy_consumption_kwh_per_km_def Let_def estimate_hvac_power_def
    HVAC_POWER_MAP_def vehicle_constants
  by (simp add: power2_eq_square)

lemma p_total_mono_wind:
  assumes "0 < s" "0 \<le> w1" "w1 \<le> w2"
  shows "p_total_kw s t w1 g \<le> p_total_kw s t w2 g"
proof -
  have e: "(s / 3.6 + w1 * 0.5) ^ 2 \<le> (s / 3.6 + w2 * 0.5) ^ 2"
    using assms by (intro power_mono) simp_all
  have c: "0 \<le> 0.5 * AIR_DENSITY_KG_M3 * DRAG_COEFFICIENT * FRONTAL_AREA_M2"
    unfolding vehicle_constants by simp
  have v: "0 \<le> s / 3.6" using assms by simp
  have d: "0 \<le> DRIVETRAIN_EFFICIENCY" unfolding vehicle_constants by simp
  show ?thesis
    unfolding p_total_kw_def
    by (intro max.mono order_refl diff_mono add_mono divide_right_mono mult_right_mono
           mult_left_mono e c v d) simp_all
qed

lemma p_total_mono_grade:
  assumes "0 < s" "0 \<le> g1" "g1 \<le> g2"
  shows "p_total_kw s t w g1 \<le> p_total_kw s t w g2"
proof -
  have m: "VEHICLE_MASS_KG * 9.81 * (g1 / 1000.0) \<le> VEHICLE_MASS_KG * 9.81 * (g2 / 1000.0)"
    using assms unfolding vehicle_constants by simp
  have "0 \<le> VEHICLE_MASS_KG * 9.81 * (g1 / 1000.0)"
    using assms unfolding vehicle_constants by simp
  with m have n: "\<not> VEHICLE_MASS_KG * 9.81 * (g1 / 1000.0) < 0"
      "\<not> VEHICLE_MASS_KG * 9.81 * (g2 / 1000.0) < 0" by simp_all
  have v: "0 \<le> s / 3.6" using assms by simp
  have d: "0 \<le> DRIVETRAIN_EFFICIENCY" unfolding vehicle_constants by simp
  show ?thesis
    unfolding p_total_kw_def using n
    apply (simp only: if_False)
    apply (intro max.mono order_refl diff_mono add_mono divide_right_mono mult_right_mono m v d)
    apply simp_all
    done
qed

text \<open>
  Claim C5. At a fixed speed above 0 and a fixed temperature, the consumption does not
  decrease when a non-negative wind speed grows (the grade fixed, of any sign), and does
  not decrease when a non-negative grade grows (the wind fixed).
\<close>

theorem consumption_monotone_wind_grade:
  "0 < s \<Longrightarrow>
   (0 \<le> w1 \<and> w1 \<le> w2 \<longrightarrow>
      (\<exists>c1 c2. compute_energy_consumption_kwh_per_km s t w1 g = Inr c1
            \<and> compute_energy_consumption_kwh_per_km s t w2 g = Inr c2 \<and> c1 \<le> c2))
   \<and> (0 \<le> g1 \<and> g1 \<le> g2 \<longrightarrow>
      (\<exists>c1 c2. compute_energy_consumption_kwh_per_km s t w g1 = Inr c1
            \<and> compute_energy_consumption_kwh_per_km s t w g2 = Inr c2 \<and> c1 \<le> c2))"
proof -
  assume s: "0 < s"
  have a: "0 \<le> w1 \<and> w1 \<le> w2 \<longrightarrow> p_total_kw s t w1 g / s \<le> p_total_kw s t w2 g / s"
    using s p_total_mono_wind by (auto intro!: divide_right_mono)
  have b: "0 \<le> g1 \<and> g1 \<le> g2 \<longrightarrow> p_total_kw s t w g1 / s \<le> p_total_kw s t w g2 / s"
    using s p_total_mono_grade by (auto intro!: divide_right_mono)
  show ?thesis using s a b by (simp only: compute_p_total) auto
qed

theorem consumption_monotone_wind_grade_witness:
  "(0::real) < 60
   \<and> (0::real) \<le> 2 \<and> (2::real) \<le> 8
   \<and> (\<exists>c1 c2. compute_energy_consumption_kwh_per_km 60 15 2 (- 3) = Inr c1
            \<and> compute_energy_consumption_kwh_per_km 60 15 8 (- 3) = Inr c2 \<and> c1 \<le> c2)
   \<and> (0::real) \<le> 1 \<and> (1::real) \<le> 5
   \<and> (\<exists>c1 c2. compute_energy_consumption_kwh_per_km 60 15 4 1 = Inr c1
            \<and> compute_energy_consumption_kwh_per_km 60 15 4 5 = Inr c2 \<and> c1 \<le> c2)"
  using consumption_monotone_wind_grade [of 60 2 8 15 "- 3" 1 5 4]
    consumption_monotone_wind_grade [of 60 2 8 15 "- 3" 1 5 4, THEN conjunct2]
  by simp

section \<open>Properties of the range estimator\<close>

lemma avg_consumption_pos: "0 < avg_consumption t w"
proof -
  have "0 < p_total_kw 35 t w 2.0" "0 < p_total_kw 60 t w 5.0" "0 < p_total_kw 100 t w 3.0"
    using p_total_floor [of 35 t w "2.0"] p_total_floor [of 60 t w "5.0"]
      p_total_floor [of 100 t w "3.0"] by simp_all
  then show ?thesis unfolding avg_consumption_def by simp
qed

lemma calculate_range_km_eq:
  "calculate_range_km soc soh t w f =
     Inr (max (BATTERY_CAPACITY_KWH * (soh / 100.0) * (max (soc - RESERVE_SOC_PCT) 0 / 100.0) * f
               / avg_consumption t w) 0)"
  using avg_consumption_pos [of t w]
  unfolding calculate_range_km_def Let_def compute_p_total avg_consumption_def by simp

text \<open>
  Claim C2. At a state of charge at or below the reserve of 5 percent the range estimator
  returns exactly 0, whatever the state of health, temperature, wind and fraction.
\<close>

theorem range_zero_at_or_below_reserve:
  "soc \<le> RESERVE_SOC_PCT \<Longrightarrow> calculate_range_km soc soh t w f = Inr 0"
  by (simp add: calculate_range_km_eq max_def)

theorem range_zero_at_or_below_reserve_witness:
  "(5::real) \<le> RESERVE_SOC_PCT \<and> calculate_range_km 5 95 15 0 1 = Inr 0
   \<and> (3::real) \<le> RESERVE_SOC_PCT \<and> calculate_range_km 3 (- 20) (- 100) 7 0.5 = Inr 0"
  using range_zero_at_or_below_reserve [of 5 95 15 0 1]
    range_zero_at_or_below_reserve [of 3 "- 20" "- 100" 7 "0.5"]
  by (simp add: RESERVE_SOC_PCT_def)

lemma range_monotone_fraction:
  assumes "0 < f1" "f1 \<le> f2"
  shows "\<exists>r1 r2. calculate_range_km soc soh t w f1 = Inr r1
             \<and> calculate_range_km soc soh t w f2 = Inr r2 \<and> r1 \<le> r2"
proof -
  define k where "k = BATTERY_CAPACITY_KWH * (soh / 100.0) * (max (soc - RESERVE_SOC_PCT) 0 / 100.0)"
  have avg: "0 < avg_consumption t w" by (rule avg_consumption_pos)
  have "max (k * f1 / avg_consumption t w) 0 \<le> max (k * f2 / avg_consumption t w) 0"
  proof (cases "0 \<le> k")
    case True
    then have "k * f1 \<le> k * f2" using assms by (intro mult_left_mono) simp_all
    then have "k * f1 / avg_consumption t w \<le> k * f2 / avg_consumption t w"
      using avg by (intro divide_right_mono) simp_all
    then show ?thesis by (intro max.mono) simp_all
  next
    case False
    then have "k * f1 \<le> 0" "k * f2 \<le> 0" using assms by (simp_all add: mult_le_0_iff)
    then have "k * f1 / avg_consumption t w \<le> 0" "k * f2 / avg_consumption t w \<le> 0"
      using avg by (simp_all add: divide_le_0_iff)
    then show ?thesis by (simp add: max_def)
  qed
  then show ?thesis unfolding calculate_range_km_eq k_def by simp
qed

text \<open>
  Claim C3. With state of charge, state of health, temperature and wind fixed, the range
  does not decrease in the usable-energy fraction over (0, 1]; in particular the ranges at
  the fractions 0.25, 0.50, 0.75 and 1.00 are in non-decreasing order.
\<close>

theorem range_monotone_in_fraction:
  "(0 < f1 \<and> f1 \<le> f2 \<and> f2 \<le> 1 \<longrightarrow>
      (\<exists>r1 r2. calculate_range_km soc soh t w f1 = Inr r1
            \<and> calculate_range_km soc soh t w f2 = Inr r2 \<and> r1 \<le> r2))
   \<and> (\<exists>r25 r50 r75 r100.
        calculate_range_km soc soh t w 0.25 = Inr r25
      \<and> calculate_range_km soc soh t w 0.50 = Inr r50
      \<and> calculate_range_km soc soh t w 0.75 = Inr r75
      \<and> calculate_range_km soc soh t w 1.00 = Inr r100
      \<and> r25 \<le> r50 \<and> r50 \<le> r75 \<and> r75 \<le> r100)"
proof -
  have a: "\<exists>r1 r2. calculate_range_km soc soh t w 0.25 = Inr r1
             \<and> calculate_range_km soc soh t w 0.50 = Inr r2 \<and> r1 \<le> r2"
    by (rule range_monotone_fraction) simp_all
  have b: "\<exists>r1 r2. calculate_range_km soc soh t w 0.50 = Inr r1
             \<and> calculate_range_km soc soh t w 0.75 = Inr r2 \<and> r1 \<le> r2"
    by (rule range_monotone_fraction) simp_all
  have c: "\<exists>r1 r2. calculate_range_km soc soh t w 0.75 = Inr r1
             \<and> calculate_range_km soc soh t w 1.00 = Inr r2 \<and> r1 \<le> r2"
    by (rule range_monotone_fraction) simp_all
  from a b c have "\<exists>r25 r50 r75 r100.
        calculate_range_km soc soh t w 0.25 = Inr r25
      \<and> calculate_range_km soc soh t w 0.50 = Inr r50
      \<and> calculate_range_km soc soh t w 0.75 = Inr r75
      \<and> calculate_range_km soc soh t w 1.00 = Inr r100
      \<and> r25 \<le> r50 \<and> r50 \<le> r75 \<and> r75 \<le> r100"
    by (metis sum.inject(2))
  then show ?thesis using range_monotone_fraction [of f1 f2 soc soh t w] by blast
qed

theorem range_monotone_in_fraction_witness:
  "(0::real) < 0.3 \<and> (0.3::real) \<le> 0.9 \<and> (0.9::real) \<le> 1
   \<and> (\<exists>r1 r2. calculate_range_km 80 95 15 0 0.3 = Inr r1
            \<and> calculate_range_km 80 95 15 0 0.9 = Inr r2 \<and> r1 \<le> r2)"
  using range_monotone_in_fraction [of "0.3" "0.9" 80 95 15 0] by simp

lemma range_at_reference_conditions:
  "calculate_range_km 80 95 15 0 1.00 = Inr (1246590000000 / 2581385231)"
  unfolding calculate_range_km_def compute_energy_consumption_kwh_per_km_def Let_def
    estimate_hvac_power_def HVAC_POWER_MAP_def vehicle_constants
  by (simp add: power2_eq_square)

text \<open>
  Claim C4. The range is the usable energy, capacity times state of health over 100 times
  \<open>max (soc - reserve) 0\<close> over 100 times the fraction, divided by the weighted average of
  the three consumptions (made non-negative by the final \<open>max\<close>, which changes nothing for
  a state of health and a fraction that are not negative). At 80 percent charge, 95 percent
  health, reserve 5 and fraction 1 the usable energy is 71.25 kWh, and at 15 degrees and no
  wind the range returned is 71.25 divided by the weighted average consumption, the
  fraction 1246590000000 / 2581385231 (about 482.9 km).
\<close>

theorem range_is_usable_energy_over_average:
  "(\<exists>c1 c2 c3.
       compute_energy_consumption_kwh_per_km 35 t w 2 = Inr c1
     \<and> compute_energy_consumption_kwh_per_km 60 t w 5 = Inr c2
     \<and> compute_energy_consumption_kwh_per_km 100 t w 3 = Inr c3
     \<and> 0 < 0.40 * c1 + 0.40 * c2 + 0.20 * c3
     \<and> calculate_range_km soc soh t w f =
         Inr (max (spec_usable_energy_kwh BATTERY_CAPACITY_KWH soh soc RESERVE_SOC_PCT f
                   / (0.40 * c1 + 0.40 * c2 + 0.20 * c3)) 0)
     \<and> (0 \<le> soh \<and> 0 \<le> f \<longrightarrow>
          calculate_range_km soc soh t w f =
            Inr (spec_usable_energy_kwh BATTERY_CAPACITY_KWH soh soc RESERVE_SOC_PCT f
                 / (0.40 * c1 + 0.40 * c2 + 0.20 * c3))))
   \<and> spec_usable_energy_kwh BATTERY_CAPACITY_KWH 95 80 RESERVE_SOC_PCT 1.00 = 71.25
   \<and> (\<exists>c1 c2 c3.
       compute_energy_consumption_kwh_per_km 35 15 0 2 = Inr c1
     \<and> compute_energy_consumption_kwh_per_km 60 15 0 5 = Inr c2
     \<and> compute_energy_consumption_kwh_per_km 100 15 0 3 = Inr c3
     \<and> calculate_range_km 80 95 15 0 1.00 = Inr (71.25 / (0.40 * c1 + 0.40 * c2 + 0.20 * c3)))
   \<and> calculate_range_km 80 95 15 0 1.00 = Inr (1246590000000 / 2581385231)"
proof -
  have gen: "\<And>t w soc soh f. \<exists>c1 c2 c3.
       compute_energy_consumption_kwh_per_km 35 t w 2 = Inr c1
     \<and> compute_energy_consumption_kwh_per_km 60 t w 5 = Inr c2
     \<and> compute_energy_consumption_kwh_per_km 100 t w 3 = Inr c3
     \<and> 0 < 0.40 * c1 + 0.40 * c2 + 0.20 * c3
     \<and> calculate_range_km soc soh t w f =
         Inr (max (spec_usable_energy_kwh BATTERY_CAPACITY_KWH soh soc RESERVE_SOC_PCT f
                   / (0.40 * c1 + 0.40 * c2 + 0.20 * c3)) 0)
     \<and> (0 \<le> soh \<and> 0 \<le> f \<longrightarrow>
          calculate_range_km soc soh t w f =
            Inr (spec_usable_energy_kwh BATTERY_CAPACITY_KWH soh soc RESERVE_SOC_PCT f
                 / (0.40 * c1 + 0.40 * c2 + 0.20 * c3)))"
  proof -
    fix t w soc soh f :: real
    let ?avg = "0.40 * (p_total_kw 35 t w 2 / 35) + 0.40 * (p_total_kw 60 t w 5 / 60)
                  + 0.20 * (p_total_kw 100 t w 3 / 100)"
    let ?u = "spec_usable_energy_kwh BATTERY_CAPACITY_KWH soh soc RESERVE_SOC_PCT f"
    have avg: "0 < ?avg" using avg_consumption_pos [of t w] unfolding avg_consumption_def by simp
    have r: "calculate_range_km soc soh t w f = Inr (max (?u / ?avg) 0)"
      unfolding calculate_range_km_eq spec_usable_energy_kwh_def avg_consumption_def by simp
    have nn: "0 \<le> soh \<and> 0 \<le> f \<longrightarrow> 0 \<le> ?u / ?avg"
    proof
      assume h: "0 \<le> soh \<and> 0 \<le> f"
      have "0 \<le> ?u" unfolding spec_usable_energy_kwh_def BATTERY_CAPACITY_KWH_def
        using h by (intro mult_nonneg_nonneg divide_nonneg_nonneg) simp_all
      then show "0 \<le> ?u / ?avg" using avg by (intro divide_nonneg_nonneg) simp_all
    qed
    have r': "0 \<le> soh \<and> 0 \<le> f \<longrightarrow> calculate_range_km soc soh t w f = Inr (?u / ?avg)"
    proof
      assume h: "0 \<le> soh \<and> 0 \<le> f"
      with nn have "max (?u / ?avg) 0 = ?u / ?avg" by (intro max_absorb1) blast
      with r show "calculate_range_km soc soh t w f = Inr (?u / ?avg)" by (simp only:)
    qed
    show "\<exists>c1 c2 c3.
       compute_energy_consumption_kwh_per_km 35 t w 2 = Inr c1
     \<and> compute_energy_consumption_kwh_per_km 60 t w 5 = Inr c2
     \<and> compute_energy_consumption_kwh_per_km 100 t w 3 = Inr c3
     \<and> 0 < 0.40 * c1 + 0.40 * c2 + 0.20 * c3
     \<and> calculate_range_km soc soh t w f =
         Inr (max (spec_usable_energy_kwh BATTERY_CAPACITY_KWH soh soc RESERVE_SOC_PCT f
                   / (0.40 * c1 + 0.40 * c2 + 0.20 * c3)) 0)
     \<and> (0 \<le> soh \<and> 0 \<le> f \<longrightarrow>
          calculate_range_km soc soh t w f =
            Inr (spec_usable_energy_kwh BATTERY_CAPACITY_KWH soh soc RESERVE_SOC_PCT f
                 / (0.40 * c1 + 0.40 * c2 + 0.20 * c3)))"
      apply (rule exI [of _ "p_total_kw 35 t w 2 / 35"])
      apply (rule exI [of _ "p_total_kw 60 t w 5 / 60"])
      apply (rule exI [of _ "p_total_kw 100 t w 3 / 100"])
      using avg r r' by (simp add: compute_p_total)
  qed
  have u: "spec_usable_energy_kwh BATTERY_CAPACITY_KWH 95 80 RESERVE_SOC_PCT 1.00 = 71.25"
    unfolding spec_usable_energy_kwh_def BATTERY_CAPACITY_KWH_def RESERVE_SOC_PCT_def by simp
  have golden: "calculate_range_km 80 95 15 0 1.00 = Inr (1246590000000 / 2581385231)"
    by (rule range_at_reference_conditions)
  have spec: "\<exists>c1 c2 c3.
       compute_energy_consumption_kwh_per_km 35 15 0 2 = Inr c1
     \<and> compute_energy_consumption_kwh_per_km 60 15 0 5 = Inr c2
     \<and> compute_energy_consumption_kwh_per_km 100 15 0 3 = Inr c3
     \<and> calculate_range_km 80 95 15 0 1.00 = Inr (71.25 / (0.40 * c1 + 0.40 * c2 + 0.20 * c3))"
  proof -
    from gen [of 15 0 80 95 "1.00"] obtain c1 c2 c3 where
      c: "compute_energy_consumption_kwh_per_km 35 15 0 2 = Inr c1"
         "compute_energy_consumption_kwh_per_km 60 15 0 5 = Inr c2"
         "compute_energy_consumption_kwh_per_km 100 15 0 3 = Inr c3"
      and r: "(0::real) \<le> 95 \<and> (0::real) \<le> 1.00 \<longrightarrow>
          calculate_range_km 80 95 15 0 1.00 =
            Inr (spec_usable_energy_kwh BATTERY_CAPACITY_KWH 95 80 RESERVE_SOC_PCT 1.00
                 / (0.40 * c1 + 0.40 * c2 + 0.20 * c3))"
      by blast
    have "(0::real) \<le> 95 \<and> (0::real) \<le> 1.00" by simp
    with r have "calculate_range_km 80 95 15 0 1.00 =
            Inr (spec_usable_energy_kwh BATTERY_CAPACITY_KWH 95 80 RESERVE_SOC_PCT 1.00
                 / (0.40 * c1 + 0.40 * c2 + 0.20 * c3))" by blast
    then have "calculate_range_km 80 95 15 0 1.00
                 = Inr (71.25 / (0.40 * c1 + 0.40 * c2 + 0.20 * c3))"
      by (simp only: u)
    with c show ?thesis by blast
  qed
  show ?thesis using gen [of t w soc soh f] u spec golden by blast
qed

theorem range_is_usable_energy_over_average_witness:
  "(0::real) \<le> 95 \<and> (0::real) \<le> 0.5
   \<and> (\<exists>c1 c2 c3.
       compute_energy_consumption_kwh_per_km 35 15 0 2 = Inr c1
     \<and> compute_energy_consumption_kwh_per_km 60 15 0 5 = Inr c2
     \<and> compute_energy_consumption_kwh_per_km 100 15 0 3 = Inr c3
     \<and> calculate_range_km 80 95 15 0 0.5 =
         Inr (spec_usable_energy_kwh BATTERY_CAPACITY_KWH 95 80 RESERVE_SOC_PCT 0.5
              / (0.40 * c1 + 0.40 * c2 + 0.20 * c3)))"
  using range_is_usable_energy_over_average [of 15 0 80 95 "0.5", THEN conjunct1] by auto

section \<open>Properties of the isodistance reconciler\<close>

lemma fetch_eq:
  "fetch_valhalla_isodistance vh lat lon ds =
     (Inr (map (engine_match vh (isodistance_request lat lon ds)) ds),
      vh\<lparr>sent := sent vh @ [isodistance_request lat lon ds]\<rparr>)"
proof (cases "respond vh (isodistance_request lat lon ds)")
  case (Inl e)
  then show ?thesis
    unfolding fetch_valhalla_isodistance_def fetch_try_def post_def engine_match_def
    by (cases e) (simp_all add: map_replicate_const)
next
  case (Inr fs)
  show ?thesis
  proof (cases "build_geom_by_distance [] fs")
    case (Inl e)
    with Inr show ?thesis
      unfolding fetch_valhalla_isodistance_def fetch_try_def post_def engine_match_def
      by (cases e) (simp_all add: map_replicate_const)
  next
    case inner: (Inr gbd)
    with Inr show ?thesis
      unfolding fetch_valhalla_isodistance_def fetch_try_def post_def engine_match_def
      by simp
  qed
qed

lemma store_feature_raises_any:
  "store_feature acc f = Inl e \<Longrightarrow> store_feature acc' f = Inl e"
  by (cases "(acc, f)" rule: store_feature.cases) auto

lemma build_raises:
  "f \<in> set fs \<Longrightarrow> store_feature [] f = Inl e \<Longrightarrow> \<exists>e'. build_geom_by_distance acc fs = Inl e'"
proof (induction fs arbitrary: acc)
  case Nil
  then show ?case by simp
next
  case (Cons a fs)
  show ?case
  proof (cases "store_feature acc a")
    case (Inl e')
    then show ?thesis by simp
  next
    case (Inr acc')
    with Cons.prems have "f \<noteq> a" using store_feature_raises_any [of "[]" f e acc] by auto
    with Cons.prems have "f \<in> set fs" by simp
    with Cons.IH Cons.prems Inr show ?thesis by simp
  qed
qed

lemma build_is_fold:
  "build_geom_by_distance acc fs = Inr gbd \<Longrightarrow>
   gbd = fold (\<lambda>p. AList.update (fst p) (snd p)) (returned_pairs fs) acc"
proof (induction fs arbitrary: acc)
  case Nil
  then show ?case by simp
next
  case (Cons a fs)
  then show ?case
    by (cases "(acc, a)" rule: store_feature.cases) (auto split: sum.splits)
qed

lemma find_append_keys:
  "List.find P (xs @ ys) = (case List.find P xs of None \<Rightarrow> List.find P ys | Some x \<Rightarrow> Some x)"
  by (induction xs) auto

lemma find_update_keys:
  "List.find P (map fst (AList.update k v al)) = List.find P (map fst al @ [k])"
  by (induction al) (auto simp: find_append_keys split: option.splits)

lemma find_fold_update_keys:
  "List.find P (map fst (fold (\<lambda>p. AList.update (fst p) (snd p)) ps al))
     = List.find P (map fst al @ map fst ps)"
proof (induction ps arbitrary: al)
  case Nil
  then show ?case by simp
next
  case (Cons p ps)
  have "List.find P (map fst (fold (\<lambda>p. AList.update (fst p) (snd p)) (p # ps) al))
        = List.find P (map fst (AList.update (fst p) (snd p) al) @ map fst ps)"
    using Cons.IH by simp
  also have "\<dots> = List.find P ((map fst al @ [fst p]) @ map fst ps)"
    by (simp only: find_append_keys [of P "map fst (AList.update (fst p) (snd p) al)"]
          find_append_keys [of P "map fst al @ [fst p]"] find_update_keys)
  finally show ?case by simp
qed

lemma map_of_fold_update:
  "map_of (fold (\<lambda>p. AList.update (fst p) (snd p)) ps al) = map_of al ++ map_of (rev ps)"
proof (induction ps arbitrary: al)
  case Nil
  then show ?case by simp
next
  case (Cons p ps)
  show ?case
    by (simp add: Cons.IH AList.update_conv' map_add_upd_left fun_eq_iff map_add_def
          split: option.splits)
qed

lemma find_match_by_key:
  "find_match al d =
     (case List.find (\<lambda>vd. \<bar>vd - d\<bar> < 1) (map fst al) of None \<Rightarrow> None | Some vd \<Rightarrow> map_of al vd)"
proof (induction al d rule: find_match.induct)
  case (1 d)
  then show ?case by simp
next
  case (2 vd geom items d)
  show ?case
  proof (cases "\<bar>vd - d\<bar> < 1")
    case True
    then show ?thesis by simp
  next
    case False
    have "\<And>x. List.find (\<lambda>vd. \<bar>vd - d\<bar> < 1) (map fst items) = Some x \<Longrightarrow> x \<noteq> vd"
      using False by (auto simp: find_Some_iff)
    with False 2 show ?thesis by (auto split: option.splits)
  qed
qed

lemma find_match_built:
  assumes "build_geom_by_distance [] fs = Inr gbd"
  shows "find_match gbd d =
     (case List.find (\<lambda>vd. \<bar>vd - d\<bar> < 1) (map fst (returned_pairs fs)) of
        None \<Rightarrow> None
      | Some vd \<Rightarrow> map_of (rev (returned_pairs fs)) vd)"
  using build_is_fold [OF assms]
  by (simp add: find_match_by_key find_fold_update_keys map_of_fold_update cong: option.case_cong)

lemma map_of_rev_distinct:
  "distinct (map fst ps) \<Longrightarrow> map_of (rev ps) = map_of ps"
proof (induction ps)
  case Nil
  then show ?case by simp
next
  case (Cons p ps)
  obtain a b where p: "p = (a, b)" by (cases p)
  from Cons.prems p have na: "map_of ps a = None" by (simp add: map_of_eq_None_iff)
  from Cons have ih: "map_of (rev ps) = map_of ps" by simp
  show ?case
  proof
    fix x
    show "map_of (rev (p # ps)) x = map_of (p # ps) x"
      using na ih p by (cases "x = a") (simp_all add: map_add_def split: option.splits)
  qed
qed

lemma find_match_built_distinct:
  assumes "build_geom_by_distance [] fs = Inr gbd" "distinct (map fst (returned_pairs fs))"
  shows "find_match gbd d = find_match (returned_pairs fs) d"
  using assms
  by (simp add: find_match_built map_of_rev_distinct find_match_by_key [of "returned_pairs fs"]
        cong: option.case_cong)

text \<open>
  Claim C6, as the code has it. When the response is read without an exception, the
  geometry attached to a requested distance is the one stored under the first returned
  contour distance within 1.0 km of it: the geometry of the last returned pair with that
  contour distance, because \<^verbatim>\<open>geom_by_distance\<close> is keyed by distance. No geometry is
  attached when no returned distance is within 1.0 km. When the returned contour distances
  are distinct, this is the first returned (distance, geometry) pair within the tolerance.
  A request of 150.0 km with a contour at 150.3 km is matched; a request of 10.0 km with
  only a contour at 50.0 km gets no geometry.
\<close>
theorem reconciler_matches_first_distance:
  "respond vh (isodistance_request lat lon ds) = Inr fs \<Longrightarrow>
   build_geom_by_distance [] fs = Inr gbd \<Longrightarrow>
   fst (fetch_valhalla_isodistance vh lat lon ds)
     = Inr (map (\<lambda>d. case List.find (\<lambda>vd. \<bar>vd - d\<bar> < 1) (map fst (returned_pairs fs)) of
                        None \<Rightarrow> None
                      | Some vd \<Rightarrow> map_of (rev (returned_pairs fs)) vd) ds)
   \<and> (distinct (map fst (returned_pairs fs)) \<longrightarrow>
        fst (fetch_valhalla_isodistance vh lat lon ds)
          = Inr (map (find_match (returned_pairs fs)) ds))
   \<and> fst (fetch_valhalla_isodistance
             (mock_valhalla (Inr [Feat (Some (Number 150.3)) (Some (Typed g))])) lat lon [150.0])
       = Inr [Some g]
   \<and> fst (fetch_valhalla_isodistance
             (mock_valhalla (Inr [Feat (Some (Number 50.0)) (Some (Typed g))])) lat lon [10.0])
       = Inr [None]"
proof -
  assume r: "respond vh (isodistance_request lat lon ds) = Inr fs"
    and b: "build_geom_by_distance [] fs = Inr gbd"
  have m: "engine_match vh (isodistance_request lat lon ds) = find_match gbd"
    using r b by (simp add: engine_match_def fun_eq_iff)
  have 1: "fst (fetch_valhalla_isodistance vh lat lon ds)
     = Inr (map (\<lambda>d. case List.find (\<lambda>vd. \<bar>vd - d\<bar> < 1) (map fst (returned_pairs fs)) of
                        None \<Rightarrow> None
                      | Some vd \<Rightarrow> map_of (rev (returned_pairs fs)) vd) ds)"
    unfolding fetch_eq m using find_match_built [OF b] by simp
  have 2: "distinct (map fst (returned_pairs fs)) \<longrightarrow>
        fst (fetch_valhalla_isodistance vh lat lon ds)
          = Inr (map (find_match (returned_pairs fs)) ds)"
    unfolding fetch_eq m using find_match_built_distinct [OF b] by simp
  have 3: "fst (fetch_valhalla_isodistance
             (mock_valhalla (Inr [Feat (Some (Number 150.3)) (Some (Typed g))])) lat lon [150.0])
       = Inr [Some g]"
    by (simp add: fetch_eq engine_match_def mock_valhalla_def)
  have 4: "fst (fetch_valhalla_isodistance
             (mock_valhalla (Inr [Feat (Some (Number 50.0)) (Some (Typed g))])) lat lon [10.0])
       = Inr [None]"
    by (simp add: fetch_eq engine_match_def mock_valhalla_def)
  show ?thesis using 1 2 3 4 by blast
qed

theorem reconciler_matches_first_distance_witness:
  "respond (mock_valhalla (Inr [Feat (Some (Number 150.3)) (Some (Typed ''A'')),
                                Feat (Some (Number 50)) (Some (Typed ''B''))]))
      (isodistance_request 51 0 [150, 10, 50.5])
     = Inr [Feat (Some (Number 150.3)) (Some (Typed ''A'')),
            Feat (Some (Number 50)) (Some (Typed ''B''))]
   \<and> build_geom_by_distance [] [Feat (Some (Number 150.3)) (Some (Typed ''A'')),
                                 Feat (Some (Number 50)) (Some (Typed ''B''))]
       = Inr [(150.3, ''A''), (50, ''B'')]
   \<and> distinct (map fst (returned_pairs [Feat (Some (Number 150.3)) (Some (Typed ''A'')),
                                         Feat (Some (Number 50)) (Some (Typed ''B''))]))
   \<and> fst (fetch_valhalla_isodistance
            (mock_valhalla (Inr [Feat (Some (Number 150.3)) (Some (Typed ''A'')),
                                 Feat (Some (Number 50)) (Some (Typed ''B''))]))
            51 0 [150, 10, 50.5])
       = Inr [Some ''A'', None, Some ''B'']"
proof -
  let ?fs = "[Feat (Some (Number 150.3)) (Some (Typed ''A'')),
              Feat (Some (Number 50)) (Some (Typed ''B''))]"
  have r: "respond (mock_valhalla (Inr ?fs)) (isodistance_request 51 0 [150, 10, 50.5]) = Inr ?fs"
    by (simp add: mock_valhalla_def)
  have b: "build_geom_by_distance [] ?fs = Inr [(150.3, ''A''), (50, ''B'')]" by simp
  have d: "distinct (map fst (returned_pairs ?fs))" by simp
  from reconciler_matches_first_distance [OF r b, THEN conjunct2, THEN conjunct1] d
  have "fst (fetch_valhalla_isodistance (mock_valhalla (Inr ?fs)) 51 0 [150, 10, 50.5])
          = Inr (map (find_match (returned_pairs ?fs)) [150, 10, 50.5])" by blast
  then have "fst (fetch_valhalla_isodistance (mock_valhalla (Inr ?fs)) 51 0 [150, 10, 50.5])
          = Inr [Some ''A'', None, Some ''B'']" by simp
  with r b d show ?thesis by blast
qed

text \<open>
  Claim C6 as stated fails when two returned pairs carry the same contour distance: for
  the pairs (150.3, A) and (150.3, B) and the request 150.0 the first returned pair within
  the tolerance is (150.3, A), and the geometry attached is B.
\<close>
theorem first_returned_pair_counterexample:
  "fst (fetch_valhalla_isodistance
          (mock_valhalla (Inr [Feat (Some (Number 150.3)) (Some (Typed ''A'')),
                               Feat (Some (Number 150.3)) (Some (Typed ''B''))]))
          51 0 [150.0])
     = Inr [Some ''B'']
   \<and> returned_pairs [Feat (Some (Number 150.3)) (Some (Typed ''A'')),
                      Feat (Some (Number 150.3)) (Some (Typed ''B''))]
       = [(150.3, ''A''), (150.3, ''B'')]
   \<and> find_match [(150.3, ''A''), (150.3, ''B'')] 150.0 = Some ''A''"
  by (simp add: fetch_eq engine_match_def mock_valhalla_def)

section \<open>Properties of the band pipeline\<close>

lemma calculate_range_km_value:
  "calculate_range_km soc soh t w f = Inr (range_value soc soh t w f)"
  unfolding range_value_def by (rule calculate_range_km_eq)

lemma range_value_nonneg: "0 \<le> range_value soc soh t w f"
  unfolding range_value_def by simp

lemma plan_bands_eq:
  "plan_bands soc soh t w bs = Inr (map (planned_band soc soh t w) bs)"
  by (induction bs) (simp_all add: calculate_range_km_value planned_band_def)

lemma select_bands_distances:
  "fst (select_bands i bs) = map (\<lambda>b. round1 (range_km b)) (filter (\<lambda>b. 1 \<le> range_km b) bs)"
proof (induction bs arbitrary: i)
  case Nil
  then show ?case by simp
next
  case (Cons b bs)
  obtain ds ixs bs' where sel: "select_bands (Suc i) bs = (ds, ixs, bs')"
    by (cases "select_bands (Suc i) bs") auto
  with Cons.IH [of "Suc i"] show ?case by simp
qed

lemma select_bands_marked:
  "snd (snd (select_bands i bs))
     = map (\<lambda>b. if 1 \<le> range_km b then b else b\<lparr>geometry := Some None\<rparr>) bs"
proof (induction bs arbitrary: i)
  case Nil
  then show ?case by simp
next
  case (Cons b bs)
  obtain ds ixs bs' where sel: "select_bands (Suc i) bs = (ds, ixs, bs')"
    by (cases "select_bands (Suc i) bs") auto
  with Cons.IH [of "Suc i"] show ?case by simp
qed

lemma attach_selected:
  "length pre = i \<Longrightarrow>
   attach_geometries
     (zip (fst (snd (select_bands i bs))) (map h (filter (\<lambda>b. 1 \<le> range_km b) bs)))
     (pre @ snd (snd (select_bands i bs)))
   = Inr (pre @ map (\<lambda>b. b\<lparr>geometry := Some (if 1 \<le> range_km b then h b else None)\<rparr>) bs)"
proof (induction bs arbitrary: i pre)
  case Nil
  then show ?case by simp
next
  case (Cons b bs)
  obtain ds ixs bs' where sel: "select_bands (Suc i) bs = (ds, ixs, bs')"
    by (cases "select_bands (Suc i) bs") auto
  show ?case
  proof (cases "1 \<le> range_km b")
    case True
    have len: "length (pre @ [b\<lparr>geometry := Some (h b)\<rparr>]) = Suc i" using Cons.prems by simp
    have upd: "(pre @ b # bs')[i := ((pre @ b # bs') ! i)\<lparr>geometry := Some (h b)\<rparr>]
                 = (pre @ [b\<lparr>geometry := Some (h b)\<rparr>]) @ bs'"
      using Cons.prems by (simp add: list_update_append nth_append)
    show ?thesis
      using True sel Cons.prems Cons.IH [OF len, unfolded sel] upd by simp
  next
    case False
    have len: "length (pre @ [b\<lparr>geometry := Some None\<rparr>]) = Suc i" using Cons.prems by simp
    show ?thesis
      using False sel Cons.IH [OF len, unfolded sel] by simp
  qed
qed

lemma main_eq:
  "main vh soc soh lat lon t w =
     (let bs = map (planned_band soc soh t w) ENERGY_BANDS;
          ds = map (\<lambda>b. round1 (range_km b)) (filter (\<lambda>b. 1 \<le> range_km b) bs);
          data = isodistance_request lat lon ds
      in if ds \<noteq> []
         then (Inr (assemble (map (\<lambda>b. b\<lparr>geometry :=
                        Some (if 1 \<le> range_km b then engine_match vh data (round1 (range_km b))
                              else None)\<rparr>) bs)),
               vh\<lparr>sent := sent vh @ [data]\<rparr>)
         else (Inr (assemble (map (\<lambda>b. b\<lparr>geometry := Some None\<rparr>) bs)), vh))"
proof -
  define bs :: "'a band_result list" where "bs = map (planned_band soc soh t w) ENERGY_BANDS"
  define ds where "ds = map (\<lambda>b. round1 (range_km b)) (filter (\<lambda>b. 1 \<le> range_km b) bs)"
  obtain ds' ixs bs' where sel: "select_bands 0 bs = (ds', ixs, bs')"
    by (cases "select_bands 0 bs") auto
  have d: "ds' = ds" using select_bands_distances [of 0 bs] sel ds_def by simp
  have m: "bs' = map (\<lambda>b. if 1 \<le> range_km b then b else b\<lparr>geometry := Some None\<rparr>) bs"
    using select_bands_marked [of 0 bs] sel by simp
  show ?thesis
  proof (cases "ds = []")
    case True
    then have "filter (\<lambda>b. 1 \<le> range_km b) bs = []" unfolding ds_def by simp
    then have "\<forall>b \<in> set bs. \<not> 1 \<le> range_km b" by (simp add: filter_empty_conv)
    then have "bs' = map (\<lambda>b. b\<lparr>geometry := Some None\<rparr>) bs" unfolding m by simp
    with True d sel show ?thesis
      unfolding main_def Let_def plan_bands_eq bs_def [symmetric] ds_def [symmetric] by simp
  next
    case False
    let ?data = "isodistance_request lat lon ds"
    have g: "map (engine_match vh ?data) ds
               = map (\<lambda>b. engine_match vh ?data (round1 (range_km b)))
                   (filter (\<lambda>b. 1 \<le> range_km b) bs)"
      unfolding ds_def by simp
    have "attach_geometries (zip ixs (map (engine_match vh ?data) ds)) bs'
            = Inr (map (\<lambda>b. b\<lparr>geometry :=
                        Some (if 1 \<le> range_km b then engine_match vh ?data (round1 (range_km b))
                              else None)\<rparr>) bs)"
      using attach_selected [of "[]" 0 bs "\<lambda>b. engine_match vh ?data (round1 (range_km b))"] sel
      unfolding g by simp
    with False d sel show ?thesis
      unfolding main_def Let_def plan_bands_eq bs_def [symmetric] ds_def [symmetric]
      by (simp add: fetch_eq)
  qed
qed

lemma engine_match_failed:
  assumes "(\<exists>e. respond vh data = Inl e)
     \<or> (\<exists>fs f e. respond vh data = Inr fs \<and> f \<in> set fs \<and> store_feature [] f = Inl e)"
  shows "engine_match vh data d = None"
  using assms
proof
  assume "\<exists>e. respond vh data = Inl e"
  then show ?thesis by (auto simp: engine_match_def)
next
  assume "\<exists>fs f e. respond vh data = Inr fs \<and> f \<in> set fs \<and> store_feature [] f = Inl e"
  then obtain fs f e where r: "respond vh data = Inr fs" and f: "f \<in> set fs"
    and s: "store_feature [] f = Inl e" by blast
  from build_raises [OF f s] obtain e' where "build_geom_by_distance [] fs = Inl e'" by blast
  with r show ?thesis by (simp add: engine_match_def)
qed

lemma main_returns:
  "\<exists>out vh'. main vh soc soh lat lon t w = (Inr out, vh')
     \<and> list_all2 (\<lambda>b eb. label b = label eb \<and> fraction b = fraction eb \<and> color b = color eb
                    \<and> calculate_range_km soc soh t w (fraction eb) = Inr (range_km b)
                    \<and> 0 \<le> range_km b)
         (bands out) ENERGY_BANDS"
  unfolding main_eq Let_def
  by (simp add: assemble_def list_all2_map1 list_all2_same planned_band_def
        calculate_range_km_value range_value_nonneg)

lemma main_bands:
  "main vh soc soh lat lon t w = (Inr out, vh') \<Longrightarrow>
   (\<forall>b \<in> set (bands out). geometry b =
       Some (if 1 \<le> range_km b
             then engine_match vh (isodistance_request lat lon
                    (map (\<lambda>b. round1 (range_km b)) (filter (\<lambda>b. 1 \<le> range_km b) (bands out))))
                    (round1 (range_km b))
             else None))
   \<and> sent vh' = sent vh @
       (if \<exists>b \<in> set (bands out). 1 \<le> range_km b
        then [isodistance_request lat lon
                (map (\<lambda>b. round1 (range_km b)) (filter (\<lambda>b. 1 \<le> range_km b) (bands out)))]
        else [])"
proof -
  assume a: "main vh soc soh lat lon t w = (Inr out, vh')"
  define bs :: "'a band_result list" where "bs = map (planned_band soc soh t w) ENERGY_BANDS"
  define ds where "ds = map (\<lambda>b. round1 (range_km b)) (filter (\<lambda>b. 1 \<le> range_km b) bs)"
  have ne: "ds \<noteq> [] \<longleftrightarrow> (\<exists>b \<in> set bs. 1 \<le> range_km b)"
    unfolding ds_def by (simp add: filter_empty_conv)
  show ?thesis
  proof (cases "ds = []")
    case True
    with a have o: "out = assemble (map (\<lambda>b. b\<lparr>geometry := Some None\<rparr>) bs)" and v: "vh' = vh"
      unfolding main_eq Let_def bs_def [symmetric] ds_def [symmetric] by simp_all
    from True ne have "\<forall>b \<in> set bs. \<not> 1 \<le> range_km b" by simp
    with o v show ?thesis by (auto simp: assemble_def)
  next
    case False
    let ?data = "isodistance_request lat lon ds"
    let ?f = "\<lambda>b. b\<lparr>geometry :=
                Some (if 1 \<le> range_km b then engine_match vh ?data (round1 (range_km b))
                      else None)\<rparr>"
    from False a have o: "out = assemble (map ?f bs)"
      and v: "vh' = vh\<lparr>sent := sent vh @ [?data]\<rparr>"
      unfolding main_eq Let_def bs_def [symmetric] ds_def [symmetric] by simp_all
    have r: "\<And>b. range_km (?f b) = range_km b" by simp
    have "filter (\<lambda>b. 1 \<le> range_km b) (map ?f bs) = map ?f (filter (\<lambda>b. 1 \<le> range_km b) bs)"
      by (simp add: filter_map comp_def)
    then have d: "map (\<lambda>b. round1 (range_km b)) (filter (\<lambda>b. 1 \<le> range_km b) (bands out)) = ds"
      unfolding o ds_def by (simp add: assemble_def comp_def)
    have e: "(\<exists>b \<in> set (bands out). 1 \<le> range_km b)"
      using False ne unfolding o by (simp add: assemble_def)
    have g: "\<forall>b \<in> set (bands out). geometry b =
       Some (if 1 \<le> range_km b then engine_match vh ?data (round1 (range_km b)) else None)"
      unfolding o by (simp add: assemble_def)
    show ?thesis unfolding d using g e v by simp
  qed
qed

lemma range_value_low_charge:
  "range_value (26 / 5) 100 15 0 1 = 3499200000 / 2581385231"
  "range_value (26 / 5) 100 15 0 (3 / 4) = 2624400000 / 2581385231"
  "range_value (26 / 5) 100 15 0 (1 / 2) = 1749600000 / 2581385231"
  "range_value (26 / 5) 100 15 0 (1 / 4) = 874800000 / 2581385231"
  unfolding range_value_def avg_consumption_def p_total_kw_def estimate_hvac_power_def
    HVAC_POWER_MAP_def vehicle_constants
  by (simp_all add: power2_eq_square)

lemma round1_low_charge:
  "round1 (3499200000 / 2581385231) = 1.4" "round1 (2624400000 / 2581385231) = 1"
  unfolding round1_def Let_def by simp_all

lemma main_low_charge:
  "main (mock_valhalla (Inl ConnectionError)) 5.2 100 51 0 15 0 =
     (Inr \<lparr>bands =
         [\<lparr>label = ''100%'', fraction = 1, color = ''#00e5ff'',
             range_km = 3499200000 / 2581385231, geometry = Some (None :: string option)\<rparr>,
          \<lparr>label = ''75%'', fraction = 3 / 4, color = ''#00b0ff'',
             range_km = 2624400000 / 2581385231, geometry = Some None\<rparr>,
          \<lparr>label = ''50%'', fraction = 1 / 2, color = ''#2979ff'',
             range_km = 1749600000 / 2581385231, geometry = Some None\<rparr>,
          \<lparr>label = ''25%'', fraction = 1 / 4, color = ''#7c4dff'',
             range_km = 874800000 / 2581385231, geometry = Some None\<rparr>],
         max_range = 3499200000 / 2581385231\<rparr>,
      (mock_valhalla (Inl ConnectionError))\<lparr>sent := [isodistance_request 51 0 [1.4, 1]]\<rparr>)"
  unfolding main_eq Let_def ENERGY_BANDS_def
  by (simp add: planned_band_def range_value_low_charge round1_low_charge assemble_def
        engine_match_def mock_valhalla_def)

section \<open>The reconciler within the pipeline\<close>

text \<open>
  Claim C7. When reaching or reading the engine fails (an exception before the features
  are read: connection, HTTP status, body; or a feature whose processing raises), the
  fetch returns normally with no geometry for any requested distance. Whatever the engine
  does, \<^verbatim>\<open>main\<close> returns normally with the ranges that \<^verbatim>\<open>calculate_range_km\<close> computes,
  none negative; with an engine that fails on every request, every band has its geometry
  explicitly absent.
\<close>
theorem engine_failure_degrades_to_absent:
  "((\<exists>e. respond vh (isodistance_request lat lon ds) = Inl e)
      \<or> (\<exists>fs f e. respond vh (isodistance_request lat lon ds) = Inr fs \<and> f \<in> set fs
            \<and> store_feature [] f = Inl e)
     \<longrightarrow> fetch_valhalla_isodistance vh lat lon ds
           = (Inr (replicate (length ds) None),
              vh\<lparr>sent := sent vh @ [isodistance_request lat lon ds]\<rparr>))
   \<and> (\<exists>out vh'. main vh soc soh lat lon t w = (Inr out, vh')
        \<and> list_all2 (\<lambda>b eb. calculate_range_km soc soh t w (fraction eb) = Inr (range_km b)
                          \<and> 0 \<le> range_km b)
            (bands out) ENERGY_BANDS
        \<and> ((\<forall>data. (\<exists>e. respond vh data = Inl e)
                \<or> (\<exists>fs f e. respond vh data = Inr fs \<and> f \<in> set fs
                      \<and> store_feature [] f = Inl e))
             \<longrightarrow> (\<forall>b \<in> set (bands out). geometry b = Some None)))"
proof (intro conjI impI)
  assume "(\<exists>e. respond vh (isodistance_request lat lon ds) = Inl e)
      \<or> (\<exists>fs f e. respond vh (isodistance_request lat lon ds) = Inr fs \<and> f \<in> set fs
            \<and> store_feature [] f = Inl e)"
  then have "engine_match vh (isodistance_request lat lon ds) = (\<lambda>d. None)"
    using engine_match_failed [of vh "isodistance_request lat lon ds"] by (simp add: fun_eq_iff)
  then show "fetch_valhalla_isodistance vh lat lon ds
           = (Inr (replicate (length ds) None),
              vh\<lparr>sent := sent vh @ [isodistance_request lat lon ds]\<rparr>)"
    unfolding fetch_eq by (simp add: map_replicate_const)
next
  from main_returns [of vh soc soh lat lon t w] obtain out vh' where
    m: "main vh soc soh lat lon t w = (Inr out, vh')"
    and l: "list_all2 (\<lambda>b eb. label b = label eb \<and> fraction b = fraction eb \<and> color b = color eb
                    \<and> calculate_range_km soc soh t w (fraction eb) = Inr (range_km b)
                    \<and> 0 \<le> range_km b) (bands out) ENERGY_BANDS"
    by blast
  from l have l': "list_all2 (\<lambda>b eb. calculate_range_km soc soh t w (fraction eb) = Inr (range_km b)
                          \<and> 0 \<le> range_km b) (bands out) ENERGY_BANDS"
    by (rule list_all2_mono) simp
  have "(\<forall>data. (\<exists>e. respond vh data = Inl e)
                \<or> (\<exists>fs f e. respond vh data = Inr fs \<and> f \<in> set fs
                      \<and> store_feature [] f = Inl e))
             \<longrightarrow> (\<forall>b \<in> set (bands out). geometry b = Some None)"
  proof (intro impI ballI)
    fix b
    assume f: "\<forall>data. (\<exists>e. respond vh data = Inl e)
                \<or> (\<exists>fs f e. respond vh data = Inr fs \<and> f \<in> set fs
                      \<and> store_feature [] f = Inl e)"
      and b: "b \<in> set (bands out)"
    have "\<And>data d. engine_match vh data d = None"
      using f engine_match_failed [of vh] by blast
    with main_bands [OF m] b show "geometry b = Some None" by simp
  qed
  with m l' show "\<exists>out vh'. main vh soc soh lat lon t w = (Inr out, vh')
        \<and> list_all2 (\<lambda>b eb. calculate_range_km soc soh t w (fraction eb) = Inr (range_km b)
                          \<and> 0 \<le> range_km b)
            (bands out) ENERGY_BANDS
        \<and> ((\<forall>data. (\<exists>e. respond vh data = Inl e)
                \<or> (\<exists>fs f e. respond vh data = Inr fs \<and> f \<in> set fs
                      \<and> store_feature [] f = Inl e))
             \<longrightarrow> (\<forall>b \<in> set (bands out). geometry b = Some None))"
    by blast
qed

theorem engine_failure_degrades_to_absent_witness:
  "respond (mock_valhalla (Inr [Feat (Some (Number 150)) (Some (Typed ''A'')),
                                Feat (Some NotNumber) (Some (Typed ''B''))]))
       (isodistance_request 51 0 [150, 75])
     = Inr [Feat (Some (Number 150)) (Some (Typed ''A'')),
            Feat (Some NotNumber) (Some (Typed ''B''))]
   \<and> store_feature [] (Feat (Some NotNumber) (Some (Typed ''B''))) = Inl OtherException
   \<and> fst (fetch_valhalla_isodistance
            (mock_valhalla (Inr [Feat (Some (Number 150)) (Some (Typed ''A'')),
                                 Feat (Some NotNumber) (Some (Typed ''B''))]))
            51 0 [150, 75])
       = Inr [None, None]
   \<and> (\<exists>out vh'. main (mock_valhalla (Inl HTTPError :: exn + string feat list)) 80 95 51 0 15 0
                    = (Inr out, vh')
         \<and> map geometry (bands out) = [Some None, Some None, Some None, Some None]
         \<and> range_km (bands out ! 0) = 1246590000000 / 2581385231)"
proof -
  let ?fs = "[Feat (Some (Number 150)) (Some (Typed ''A'')),
              Feat (Some NotNumber) (Some (Typed ''B''))]"
  let ?vh = "mock_valhalla (Inl HTTPError :: exn + string feat list)"
  have r: "respond (mock_valhalla (Inr ?fs)) (isodistance_request 51 0 [150, 75]) = Inr ?fs"
    by (simp add: mock_valhalla_def)
  have s: "store_feature [] (Feat (Some NotNumber) (Some (Typed ''B''))) = Inl OtherException"
    by simp
  have "\<exists>fs f e. respond (mock_valhalla (Inr ?fs)) (isodistance_request 51 0 [150, 75]) = Inr fs
          \<and> f \<in> set fs \<and> store_feature [] f = Inl e"
    using r s by (intro exI [of _ ?fs] exI [of _ "Feat (Some NotNumber) (Some (Typed ''B''))"]
        exI [of _ OtherException]) simp
  with engine_failure_degrades_to_absent
         [of "mock_valhalla (Inr ?fs)" 51 0 "[150, 75]" 80 95 15 0, THEN conjunct1]
  have f: "fst (fetch_valhalla_isodistance (mock_valhalla (Inr ?fs)) 51 0 [150, 75])
             = Inr [None, None]"
    by (simp add: numeral_2_eq_2)
  from engine_failure_degrades_to_absent [of ?vh 51 0 "[]" 80 95 15 0, THEN conjunct2]
  obtain out vh' where m: "main ?vh 80 95 51 0 15 0 = (Inr out, vh')"
    and l: "list_all2 (\<lambda>b eb. calculate_range_km 80 95 15 0 (fraction eb) = Inr (range_km b)
                          \<and> 0 \<le> range_km b) (bands out) ENERGY_BANDS"
    and g: "(\<forall>data. (\<exists>e. respond ?vh data = Inl e)
                \<or> (\<exists>fs f e. respond ?vh data = Inr fs \<and> f \<in> set fs
                      \<and> store_feature [] f = Inl e))
             \<longrightarrow> (\<forall>b \<in> set (bands out). geometry b = Some None)"
    by blast
  have "\<forall>data. \<exists>e. respond ?vh data = Inl e" by (simp add: mock_valhalla_def)
  with g have g': "\<forall>b \<in> set (bands out). geometry b = Some None" by blast
  from l have len: "length (bands out) = 4"
    by (simp add: list_all2_lengthD ENERGY_BANDS_def)
  from g' len have mg: "map geometry (bands out) = [Some None, Some None, Some None, Some None]"
    by (intro nth_equalityI) (auto simp: less_Suc_eq numeral_eq_Suc)
  from l len have "calculate_range_km 80 95 15 0 (fraction (ENERGY_BANDS ! 0))
                     = Inr (range_km (bands out ! 0))"
    by (auto simp: list_all2_conv_all_nth)
  then have rg: "range_km (bands out ! 0) = 1246590000000 / 2581385231"
    using range_at_reference_conditions by (simp add: ENERGY_BANDS_def)
  from m mg rg have "\<exists>out vh'. main ?vh 80 95 51 0 15 0 = (Inr out, vh')
         \<and> map geometry (bands out) = [Some None, Some None, Some None, Some None]
         \<and> range_km (bands out ! 0) = 1246590000000 / 2581385231"
    by (intro exI [of _ out] exI [of _ vh'] conjI)
  with r s f show ?thesis by (intro conjI)
qed

text \<open>
  Claim C10. The fetch always returns normally a list as long as the list of requested
  distances, whose element \<open>i\<close> is the geometry matched to requested distance \<open>i\<close>, or
  nothing on a failure; and \<^verbatim>\<open>main\<close> attaches to every band of at least 1.0 km the geometry
  matched to that band's own rounded range.
\<close>
theorem fetch_results_aligned:
  "(\<exists>rs. fetch_valhalla_isodistance vh lat lon ds
            = (Inr rs, vh\<lparr>sent := sent vh @ [isodistance_request lat lon ds]\<rparr>)
        \<and> length rs = length ds
        \<and> (\<forall>i. i < length ds \<longrightarrow>
              rs ! i =
                (case respond vh (isodistance_request lat lon ds) of
                   Inl e \<Rightarrow> None
                 | Inr fs \<Rightarrow>
                     (case build_geom_by_distance [] fs of
                        Inl e \<Rightarrow> None
                      | Inr gbd \<Rightarrow> find_match gbd (ds ! i)))))
   \<and> (\<exists>out vh'. main vh soc soh lat lon t w = (Inr out, vh')
        \<and> (\<forall>b \<in> set (bands out). 1 \<le> range_km b \<longrightarrow>
              geometry b =
                Some (case respond vh (isodistance_request lat lon
                              (map (\<lambda>b. round1 (range_km b))
                                 (filter (\<lambda>b. 1 \<le> range_km b) (bands out)))) of
                        Inl e \<Rightarrow> None
                      | Inr fs \<Rightarrow>
                          (case build_geom_by_distance [] fs of
                             Inl e \<Rightarrow> None
                           | Inr gbd \<Rightarrow> find_match gbd (round1 (range_km b))))))"
proof (intro conjI)
  show "\<exists>rs. fetch_valhalla_isodistance vh lat lon ds
            = (Inr rs, vh\<lparr>sent := sent vh @ [isodistance_request lat lon ds]\<rparr>)
        \<and> length rs = length ds
        \<and> (\<forall>i. i < length ds \<longrightarrow>
              rs ! i =
                (case respond vh (isodistance_request lat lon ds) of
                   Inl e \<Rightarrow> None
                 | Inr fs \<Rightarrow>
                     (case build_geom_by_distance [] fs of
                        Inl e \<Rightarrow> None
                      | Inr gbd \<Rightarrow> find_match gbd (ds ! i))))"
    unfolding fetch_eq by (simp add: engine_match_def)
next
  from main_returns [of vh soc soh lat lon t w] obtain out vh' where
    m: "main vh soc soh lat lon t w = (Inr out, vh')" by blast
  from main_bands [OF m] have
    "\<forall>b \<in> set (bands out). 1 \<le> range_km b \<longrightarrow>
              geometry b =
                Some (case respond vh (isodistance_request lat lon
                              (map (\<lambda>b. round1 (range_km b))
                                 (filter (\<lambda>b. 1 \<le> range_km b) (bands out)))) of
                        Inl e \<Rightarrow> None
                      | Inr fs \<Rightarrow>
                          (case build_geom_by_distance [] fs of
                             Inl e \<Rightarrow> None
                           | Inr gbd \<Rightarrow> find_match gbd (round1 (range_km b))))"
    by (simp add: engine_match_def)
  with m show "\<exists>out vh'. main vh soc soh lat lon t w = (Inr out, vh')
        \<and> (\<forall>b \<in> set (bands out). 1 \<le> range_km b \<longrightarrow>
              geometry b =
                Some (case respond vh (isodistance_request lat lon
                              (map (\<lambda>b. round1 (range_km b))
                                 (filter (\<lambda>b. 1 \<le> range_km b) (bands out)))) of
                        Inl e \<Rightarrow> None
                      | Inr fs \<Rightarrow>
                          (case build_geom_by_distance [] fs of
                             Inl e \<Rightarrow> None
                           | Inr gbd \<Rightarrow> find_match gbd (round1 (range_km b)))))"
    by blast
qed

theorem fetch_results_aligned_witness:
  "\<exists>rs. fst (fetch_valhalla_isodistance
               (mock_valhalla (Inr [Feat (Some (Number 150.3)) (Some (Typed ''A'')),
                                    Feat (Some (Number 50)) (Some (Typed ''B''))]))
               51 0 [10, 150, 50.5]) = Inr rs
      \<and> length rs = 3 \<and> (0::nat) < 3 \<and> rs ! 0 = None
      \<and> (1::nat) < 3 \<and> rs ! 1 = Some ''A'' \<and> (2::nat) < 3 \<and> rs ! 2 = Some ''B''"
proof -
  let ?fs = "[Feat (Some (Number 150.3)) (Some (Typed ''A'')),
              Feat (Some (Number 50)) (Some (Typed ''B''))]"
  let ?vh = "mock_valhalla (Inr ?fs)"
  let ?ds = "[10, 150, 50.5] :: real list"
  from fetch_results_aligned [of ?vh 51 0 ?ds 80 95 15 0, THEN conjunct1]
  obtain rs where f: "fetch_valhalla_isodistance ?vh 51 0 ?ds
            = (Inr rs, ?vh\<lparr>sent := sent ?vh @ [isodistance_request 51 0 ?ds]\<rparr>)"
    and l: "length rs = length ?ds"
    and a: "\<forall>i. i < length ?ds \<longrightarrow>
              rs ! i =
                (case respond ?vh (isodistance_request 51 0 ?ds) of
                   Inl e \<Rightarrow> None
                 | Inr fs \<Rightarrow>
                     (case build_geom_by_distance [] fs of
                        Inl e \<Rightarrow> None
                      | Inr gbd \<Rightarrow> find_match gbd (?ds ! i)))"
    by blast
  have r: "respond ?vh (isodistance_request 51 0 ?ds) = Inr ?fs" by (simp add: mock_valhalla_def)
  from a [rule_format, of 0] r have 0: "rs ! 0 = None" by simp
  from a [rule_format, of 1] r have 1: "rs ! 1 = Some ''A''" by simp
  from a [rule_format, of 2] r have 2: "rs ! 2 = Some ''B''" by simp
  from f l 0 1 2 show ?thesis by (intro exI [of _ rs]) simp
qed

text \<open>
  Claim C9. \<^verbatim>\<open>main\<close> returns the bands of \<^verbatim>\<open>ENERGY_BANDS\<close> with their computed ranges. Every
  band with a range below 1.0 km has its geometry explicitly \<^verbatim>\<open>None\<close>, and the engine is
  sent at most one request: none when no band reaches 1.0 km, otherwise a single one whose
  contours are the rounded ranges of exactly the bands of at least 1.0 km, in order.
\<close>
theorem short_bands_not_requested:
  "\<exists>out vh'. main vh soc soh lat lon t w = (Inr out, vh')
     \<and> list_all2 (\<lambda>b eb. label b = label eb
                    \<and> calculate_range_km soc soh t w (fraction eb) = Inr (range_km b))
         (bands out) ENERGY_BANDS
     \<and> (\<forall>b \<in> set (bands out). range_km b < 1 \<longrightarrow> geometry b = Some None)
     \<and> sent vh' = sent vh @
         (if \<exists>b \<in> set (bands out). 1 \<le> range_km b
          then [isodistance_request lat lon
                  (map (\<lambda>b. round1 (range_km b)) (filter (\<lambda>b. 1 \<le> range_km b) (bands out)))]
          else [])"
proof -
  from main_returns [of vh soc soh lat lon t w] obtain out vh' where
    m: "main vh soc soh lat lon t w = (Inr out, vh')"
    and l: "list_all2 (\<lambda>b eb. label b = label eb \<and> fraction b = fraction eb \<and> color b = color eb
                    \<and> calculate_range_km soc soh t w (fraction eb) = Inr (range_km b)
                    \<and> 0 \<le> range_km b) (bands out) ENERGY_BANDS"
    by blast
  from l have l': "list_all2 (\<lambda>b eb. label b = label eb
                    \<and> calculate_range_km soc soh t w (fraction eb) = Inr (range_km b))
         (bands out) ENERGY_BANDS"
    by (rule list_all2_mono) simp
  from main_bands [OF m] have g: "\<forall>b \<in> set (bands out). range_km b < 1 \<longrightarrow> geometry b = Some None"
    by auto
  from main_bands [OF m] have s: "sent vh' = sent vh @
         (if \<exists>b \<in> set (bands out). 1 \<le> range_km b
          then [isodistance_request lat lon
                  (map (\<lambda>b. round1 (range_km b)) (filter (\<lambda>b. 1 \<le> range_km b) (bands out)))]
          else [])"
    by blast
  from m l' g s show ?thesis by blast
qed

theorem short_bands_not_requested_witness:
  "\<exists>out vh'. main (mock_valhalla (Inl ConnectionError :: exn + string feat list))
                 5.2 100 51 0 15 0 = (Inr out, vh')
     \<and> map label (bands out) = [''100%'', ''75%'', ''50%'', ''25%'']
     \<and> bands out ! 2 \<in> set (bands out) \<and> range_km (bands out ! 2) < 1
     \<and> geometry (bands out ! 2) = Some None
     \<and> bands out ! 3 \<in> set (bands out) \<and> range_km (bands out ! 3) < 1
     \<and> geometry (bands out ! 3) = Some None
     \<and> 1 \<le> range_km (bands out ! 0) \<and> 1 \<le> range_km (bands out ! 1)
     \<and> sent vh' = [isodistance_request 51 0 [1.4, 1.0]]"
proof -
  let ?vh = "mock_valhalla (Inl ConnectionError :: exn + string feat list)"
  from short_bands_not_requested [of ?vh "5.2" 100 51 0 15 0]
  obtain out vh' where m: "main ?vh 5.2 100 51 0 15 0 = (Inr out, vh')"
    and g: "\<forall>b \<in> set (bands out). range_km b < 1 \<longrightarrow> geometry b = Some None"
    and s: "sent vh' = sent ?vh @
         (if \<exists>b \<in> set (bands out). 1 \<le> range_km b
          then [isodistance_request 51 0
                  (map (\<lambda>b. round1 (range_km b)) (filter (\<lambda>b. 1 \<le> range_km b) (bands out)))]
          else [])"
    by blast
  from m have o: "bands out =
         [\<lparr>label = ''100%'', fraction = 1, color = ''#00e5ff'',
             range_km = 3499200000 / 2581385231, geometry = Some (None :: string option)\<rparr>,
          \<lparr>label = ''75%'', fraction = 3 / 4, color = ''#00b0ff'',
             range_km = 2624400000 / 2581385231, geometry = Some None\<rparr>,
          \<lparr>label = ''50%'', fraction = 1 / 2, color = ''#2979ff'',
             range_km = 1749600000 / 2581385231, geometry = Some None\<rparr>,
          \<lparr>label = ''25%'', fraction = 1 / 4, color = ''#7c4dff'',
             range_km = 874800000 / 2581385231, geometry = Some None\<rparr>]"
    using main_low_charge by simp
  have 2: "bands out ! 2 \<in> set (bands out)" "bands out ! 3 \<in> set (bands out)"
    unfolding o by simp_all
  have r: "range_km (bands out ! 2) < 1" "range_km (bands out ! 3) < 1"
    "1 \<le> range_km (bands out ! 0)" "1 \<le> range_km (bands out ! 1)"
    unfolding o by simp_all
  from g 2 r have a: "geometry (bands out ! 2) = Some None" "geometry (bands out ! 3) = Some None"
    by blast+
  have lb: "map label (bands out) = [''100%'', ''75%'', ''50%'', ''25%'']" unfolding o by simp
  have "sent vh' = [isodistance_request 51 0 [1.4, 1.0]]"
    using s unfolding o by (simp add: round1_low_charge mock_valhalla_def)
  with m lb 2 r a show ?thesis
    by (intro exI [of _ out] exI [of _ vh'] conjI)
qed

end
